theory Spec2Isabelle
  imports Complex_Main
begin

section \<open>AircraftPresets: the tick-driven preset loader\<close>

text \<open>
  A shallow embedding of \<^verbatim>\<open>AircraftPresets::update\<close>
  (\<^verbatim>\<open>fbw-common/src/wasm/extra-backend/AircraftPresets/AircraftPresets.cpp\<close>).

  The method mutates the members of the module and of the variables it holds; the model
  passes them as a record and returns the record updated. What the method does to the
  outside (writing a variable, evaluating calculator code) is listed, in program order,
  in the \<open>effects\<close> of the result. Logging (\<^verbatim>\<open>LOG_INFO\<close>, \<^verbatim>\<open>LOG_WARN\<close>,
  \<^verbatim>\<open>LOG_ERROR\<close>, \<^verbatim>\<open>std::cout\<close>) is left out, and with it the variable
  \<^verbatim>\<open>aircraftPresetVerbose\<close>, which only chooses whether two lines are printed.
\<close>

subsection \<open>Data\<close>

text \<open>
  A \<^verbatim>\<open>FLOAT64\<close> is a real number, or one of the values a division by zero gives
  (an infinity or a NaN). Times (\<^verbatim>\<open>dt\<close>, \<^verbatim>\<open>currentLoadingTime\<close>,
  \<^verbatim>\<open>currentDelay\<close>, \<^verbatim>\<open>delayAfter\<close>) are taken as finite and are
  plain reals; rounding is not modelled.
\<close>

datatype float64 = Finite real | NonFinite

text \<open>
  Modelled from the spec: the declaration of \<^verbatim>\<open>ProcedureStep\<close> (its header is not
  among the sources). The fields are those \<^verbatim>\<open>update\<close> reads.
\<close>

record ProcedureStep =
  description :: string
  id :: int
  isConditional :: bool
  delayAfter :: real
  expectedStateCheckCode :: string
  actionCode :: string

text \<open>A procedure is the vector of its steps, in execution order.\<close>

type_synonym Procedure = "ProcedureStep list"

text \<open>\<^verbatim>\<open>sGaugeDrawData\<close>: only \<^verbatim>\<open>dt\<close>, the seconds since the last tick, is read.\<close>

record sGaugeDrawData =
  dt :: real

text \<open>
  Modelled from the spec: the declaration of the class \<^verbatim>\<open>AircraftPresets\<close> (its header
  is not among the sources). The fields are the members \<^verbatim>\<open>update\<close> uses and the values
  of the variables it reads and writes:
  \<^item> \<open>isInitialized\<close> is \<^verbatim>\<open>_isInitialized\<close>, and \<open>aircraftIsReady\<close> what
    \<^verbatim>\<open>msfsHandler.getAircraftIsReadyVar()\<close> returns;
  \<^item> \<open>loadAircraftPresetRequest\<close> is the request as \<^verbatim>\<open>getAsInt64\<close> returns it, and
    \<open>simOnGround\<close> the flag as \<^verbatim>\<open>getAsBool\<close> returns it;
  \<^item> \<open>progressAircraftPreset\<close> and \<open>progressAircraftPresetId\<close> are the values of the
    two progress variables in the simulator, which this module alone is taken to write;
  \<^item> \<open>currentProcedure\<close> is the procedure the pointer refers to, and \<open>currentStep\<close> an
    index into it.
\<close>

record AircraftPresets =
  isInitialized :: bool
  aircraftIsReady :: bool
  loadAircraftPresetRequest :: int
  simOnGround :: bool
  progressAircraftPreset :: float64
  progressAircraftPresetId :: float64
  currentProcedureID :: int
  currentProcedure :: Procedure
  loadingIsActive :: bool
  currentLoadingTime :: real
  currentDelay :: real
  currentStep :: nat

text \<open>What one call does to the outside, in program order.\<close>

datatype effect =
    SetRequest int
  | WriteProgress float64
  | WriteProgressId float64
  | ExecuteCalculatorCode string

text \<open>
  The result of a call: the value returned, the effects, the module afterwards, and the
  state of the simulator (which only calculator code changes).
\<close>

record 'h outcome =
  retval :: bool
  effects :: "effect list"
  loader :: AircraftPresets
  sim :: 'h

subsection \<open>The update method\<close>

text \<open>
  \<^verbatim>\<open>static_cast<double>(currentStep) / currentProcedure->size()\<close>: a division of
  doubles, which does not trap on a zero divisor but gives a value that is not finite.
\<close>

definition progress_fraction :: "nat \<Rightarrow> nat \<Rightarrow> float64" where
  "progress_fraction step n = (if n = 0 then NonFinite else Finite (real step / real n))"

text \<open>
  Three collaborators are not among the sources and are parameters:
  \<^item> \<open>almostEqual\<close>, for \<^verbatim>\<open>helper::Math::almostEqual\<close>;
  \<^item> \<open>exec\<close>, for \<^verbatim>\<open>execute_calculator_code\<close>: from the code string and the state
    of the simulator, the value left in \<^verbatim>\<open>fvalue\<close> and the simulator afterwards;
  \<^item> \<open>presetProcedures\<close>, for \<^verbatim>\<open>presetProcedures.getProcedure\<close>.

  The two \<^verbatim>\<open>updateFromSim\<close> calls refresh the module's copies of the progress
  variables, which it never reads; they change nothing an observer sees. In the last
  \<^theory_text>\<open>let\<close>, \<open>progress\<close> and \<open>progressId\<close> name the two values that the
  conditional branch and the executing branch write.
\<close>

definition update ::
  "(float64 \<Rightarrow> float64 \<Rightarrow> bool) \<Rightarrow> (string \<Rightarrow> 'h \<Rightarrow> float64 \<times> 'h) \<Rightarrow> (int \<Rightarrow> Procedure option) \<Rightarrow>
   sGaugeDrawData \<Rightarrow> AircraftPresets \<Rightarrow> 'h \<Rightarrow> 'h outcome" where
  "update almostEqual exec presetProcedures pData st h =
    (if \<not> isInitialized st then
       \<lparr>retval = False, effects = [], loader = st, sim = h\<rparr>
     else if \<not> aircraftIsReady st then
       \<lparr>retval = True, effects = [], loader = st, sim = h\<rparr>
     else if loadAircraftPresetRequest st > 0 then
       (if \<not> simOnGround st then
          \<lparr>retval = True, effects = [SetRequest 0],
           loader = st\<lparr>loadAircraftPresetRequest := 0, loadingIsActive := False\<rparr>, sim = h\<rparr>
        else if \<not> loadingIsActive st then
          (case presetProcedures (loadAircraftPresetRequest st) of
             None \<Rightarrow>
               \<lparr>retval = True, effects = [SetRequest 0],
                loader = st\<lparr>loadAircraftPresetRequest := 0, loadingIsActive := False\<rparr>, sim = h\<rparr>
           | Some requestedProcedure \<Rightarrow>
               \<lparr>retval = True, effects = [WriteProgress (Finite 0), WriteProgressId (Finite 0)],
                loader = st\<lparr>currentProcedureID := loadAircraftPresetRequest st,
                             currentProcedure := requestedProcedure,
                             currentLoadingTime := 0,
                             currentDelay := 0,
                             currentStep := 0,
                             loadingIsActive := True,
                             progressAircraftPreset := Finite 0,
                             progressAircraftPresetId := Finite 0\<rparr>,
                sim = h\<rparr>)
        else
          (let st1 = st\<lparr>loadAircraftPresetRequest := currentProcedureID st\<rparr>;
               e1 = [SetRequest (currentProcedureID st)]
           in
           if currentStep st1 \<ge> length (currentProcedure st1) then
             \<lparr>retval = True,
              effects = e1 @ [WriteProgress (Finite 0), WriteProgressId (Finite 0), SetRequest 0],
              loader = st1\<lparr>progressAircraftPreset := Finite 0,
                            progressAircraftPresetId := Finite 0,
                            loadAircraftPresetRequest := 0,
                            loadingIsActive := False\<rparr>,
              sim = h\<rparr>
           else
             (let st2 = st1\<lparr>currentLoadingTime := currentLoadingTime st1 + dt pData * 1000\<rparr> in
              if currentLoadingTime st2 \<le> currentDelay st2 then
                \<lparr>retval = True, effects = e1, loader = st2, sim = h\<rparr>
              else
                (let currentStepPtr = currentProcedure st2 ! currentStep st2;
                     st3 = st2\<lparr>currentDelay := currentLoadingTime st2 + delayAfter currentStepPtr\<rparr>;
                     progress = progress_fraction (currentStep st3) (length (currentProcedure st3));
                     progressId = Finite (of_int (id currentStepPtr))
                 in
                 if isConditional currentStepPtr then
                   (let st4 = st3\<lparr>progressAircraftPreset := progress,
                                   progressAircraftPresetId := progressId\<rparr>
                    in
                    case exec (actionCode currentStepPtr) h of (fvalue, h') \<Rightarrow>
                      \<lparr>retval = True,
                       effects = e1 @ [WriteProgress progress, WriteProgressId progressId,
                                       ExecuteCalculatorCode (actionCode currentStepPtr)],
                       loader = (if \<not> almostEqual (Finite 0) fvalue
                                 then st4\<lparr>currentDelay := 0, currentStep := currentStep st4 + 1\<rparr>
                                 else st4),
                       sim = h'\<rparr>)
                 else if expectedStateCheckCode currentStepPtr \<noteq> [] then
                   (case exec (expectedStateCheckCode currentStepPtr) h of (fvalue, h') \<Rightarrow>
                      if \<not> almostEqual (Finite 0) fvalue then
                        \<lparr>retval = True,
                         effects = e1 @ [ExecuteCalculatorCode (expectedStateCheckCode currentStepPtr)],
                         loader = st3\<lparr>currentDelay := 0, currentStep := currentStep st3 + 1\<rparr>,
                         sim = h'\<rparr>
                      else
                        (case exec (actionCode currentStepPtr) h' of (fvalue2, h'') \<Rightarrow>
                           \<lparr>retval = True,
                            effects = e1 @ [ExecuteCalculatorCode (expectedStateCheckCode currentStepPtr),
                                            WriteProgress progress, WriteProgressId progressId,
                                            ExecuteCalculatorCode (actionCode currentStepPtr)],
                            loader = st3\<lparr>progressAircraftPreset := progress,
                                          progressAircraftPresetId := progressId,
                                          currentStep := currentStep st3 + 1\<rparr>,
                            sim = h''\<rparr>))
                 else
                   (case exec (actionCode currentStepPtr) h of (fvalue, h') \<Rightarrow>
                      \<lparr>retval = True,
                       effects = e1 @ [WriteProgress progress, WriteProgressId progressId,
                                       ExecuteCalculatorCode (actionCode currentStepPtr)],
                       loader = st3\<lparr>progressAircraftPreset := progress,
                                     progressAircraftPresetId := progressId,
                                     currentStep := currentStep st3 + 1\<rparr>,
                       sim = h'\<rparr>)))))
     else if loadingIsActive st then
       \<lparr>retval = True, effects = [], loader = st\<lparr>loadingIsActive := False\<rparr>, sim = h\<rparr>
     else
       \<lparr>retval = True, effects = [], loader = st, sim = h\<rparr>)"

text \<open>The calculator code a call evaluated, in order.\<close>

fun evaluated :: "effect list \<Rightarrow> string list" where
  "evaluated [] = []"
| "evaluated (ExecuteCalculatorCode c # es) = c # evaluated es"
| "evaluated (_ # es) = evaluated es"

text \<open>
  \<open>n\<close> consecutive calls with the same tick data, nothing outside the module changing a
  variable in between: the state after \<open>n + 1\<close> calls is \<^verbatim>\<open>update\<close> on the state
  after \<open>n\<close>.
\<close>

primrec ticks ::
  "(float64 \<Rightarrow> float64 \<Rightarrow> bool) \<Rightarrow> (string \<Rightarrow> 'h \<Rightarrow> float64 \<times> 'h) \<Rightarrow> (int \<Rightarrow> Procedure option) \<Rightarrow>
   sGaugeDrawData \<Rightarrow> nat \<Rightarrow> AircraftPresets \<Rightarrow> 'h \<Rightarrow> AircraftPresets \<times> 'h" where
  "ticks almostEqual exec presetProcedures pData 0 st h = (st, h)"
| "ticks almostEqual exec presetProcedures pData (Suc n) st h =
     (case ticks almostEqual exec presetProcedures pData n st h of
        (st', h') \<Rightarrow>
          (let r = update almostEqual exec presetProcedures pData st' h' in (loader r, sim r)))"

text \<open>
  The outcome of call number \<open>n + 1\<close> of such a sequence: \<^verbatim>\<open>update\<close> on the state that
  \<open>n\<close> calls have left.
\<close>

definition call ::
  "(float64 \<Rightarrow> float64 \<Rightarrow> bool) \<Rightarrow> (string \<Rightarrow> 'h \<Rightarrow> float64 \<times> 'h) \<Rightarrow> (int \<Rightarrow> Procedure option) \<Rightarrow>
   sGaugeDrawData \<Rightarrow> nat \<Rightarrow> AircraftPresets \<Rightarrow> 'h \<Rightarrow> 'h outcome" where
  "call almostEqual exec presetProcedures pData n st h =
     (case ticks almostEqual exec presetProcedures pData n st h of
        (st', h') \<Rightarrow> update almostEqual exec presetProcedures pData st' h')"

text \<open>
  A run of procedure \<open>proc\<close> under id \<open>pid\<close> is going on, past the two gates and on the
  ground, at step \<open>k\<close>, with \<open>t\<close> milliseconds on the run timer and the next step due
  after \<open>d\<close>.
\<close>

definition in_run :: "AircraftPresets \<Rightarrow> int \<Rightarrow> Procedure \<Rightarrow> nat \<Rightarrow> real \<Rightarrow> real \<Rightarrow> bool" where
  "in_run st pid proc k t d =
     (isInitialized st \<and> aircraftIsReady st \<and> simOnGround st \<and> loadingIsActive st \<and>
      0 < loadAircraftPresetRequest st \<and> currentProcedureID st = pid \<and> 0 < pid \<and>
      currentProcedure st = proc \<and> currentStep st = k \<and>
      currentLoadingTime st = t \<and> currentDelay st = d)"

subsection \<open>Stand-ins for the collaborators, and sample data\<close>

text \<open>
  Modelled from the spec: \<^verbatim>\<open>helper::Math::almostEqual\<close> (\<^verbatim>\<open>math_utils.hpp\<close> is
  not among the sources), a comparison with a tolerance, here a parameter. The theorems
  below hold for any comparison; this one instantiates them.
\<close>

fun almostEqual_tol :: "real \<Rightarrow> float64 \<Rightarrow> float64 \<Rightarrow> bool" where
  "almostEqual_tol eps (Finite a) (Finite b) = (\<bar>a - b\<bar> \<le> eps)"
| "almostEqual_tol eps _ _ = False"

text \<open>
  A test double for \<^verbatim>\<open>execute_calculator_code\<close>: the result of each code string is
  looked up in a table, and the simulator's state is the list of the code evaluated so far.
\<close>

definition exec_stub :: "(string \<Rightarrow> float64) \<Rightarrow> string \<Rightarrow> string list \<Rightarrow> float64 \<times> string list" where
  "exec_stub result code h = (result code, h @ [code])"

definition action_step :: "int \<Rightarrow> real \<Rightarrow> string \<Rightarrow> string \<Rightarrow> ProcedureStep" where
  "action_step i d check code =
     \<lparr>description = [], id = i, isConditional = False, delayAfter = d,
      expectedStateCheckCode = check, actionCode = code\<rparr>"

text \<open>
  The module after \<^verbatim>\<open>initialize\<close> (the request reset to 0, the members at their
  defaults), the aircraft ready and on the ground.
\<close>

definition fresh :: AircraftPresets where
  "fresh = \<lparr>isInitialized = True, aircraftIsReady = True, loadAircraftPresetRequest = 0,
            simOnGround = True, progressAircraftPreset = Finite 0,
            progressAircraftPresetId = Finite 0, currentProcedureID = 0,
            currentProcedure = [], loadingIsActive = False, currentLoadingTime = 0,
            currentDelay = 0, currentStep = 0\<rparr>"

text \<open>Three action steps with delays of 100, 200 and 0 ms and no expected-state check.\<close>

definition three_steps :: Procedure where
  "three_steps =
     [action_step 1 100 [] ''a'', action_step 2 200 [] ''b'', action_step 3 0 [] ''c'']"

text \<open>Two action steps, each with an expected-state check.\<close>

definition checked_steps :: Procedure where
  "checked_steps = [action_step 1 100 ''p'' ''a'', action_step 2 100 ''q'' ''b'']"

text \<open>A run of \<open>proc\<close> under id 1, at step \<open>k\<close>, with nothing to wait for.\<close>

definition mid_run :: "Procedure \<Rightarrow> nat \<Rightarrow> AircraftPresets" where
  "mid_run proc k =
     fresh\<lparr>loadAircraftPresetRequest := 1, currentProcedureID := 1, currentProcedure := proc,
           loadingIsActive := True, currentStep := k\<rparr>"

text \<open>A tick of 50 ms.\<close>

definition tick50 :: sGaugeDrawData where
  "tick50 = \<lparr>dt = 50 / 1000\<rparr>"

section \<open>One call, path by path\<close>

lemmas sample_defs = fresh_def mid_run_def three_steps_def checked_steps_def action_step_def
  exec_stub_def tick50_def progress_fraction_def

lemma update_idle:
  assumes "loadAircraftPresetRequest st \<le> 0" "\<not> loadingIsActive st"
  shows "update almostEqual exec presetProcedures pData st h =
    \<lparr>retval = isInitialized st, effects = [], loader = st, sim = h\<rparr>"
  using assms by (simp add: update_def)

lemma update_start:
  assumes "isInitialized st" "aircraftIsReady st" "0 < loadAircraftPresetRequest st"
    "simOnGround st" "\<not> loadingIsActive st"
    "presetProcedures (loadAircraftPresetRequest st) = Some proc"
  shows "update almostEqual exec presetProcedures pData st h =
    \<lparr>retval = True, effects = [WriteProgress (Finite 0), WriteProgressId (Finite 0)],
     loader = st\<lparr>currentProcedureID := loadAircraftPresetRequest st,
                  currentProcedure := proc, currentLoadingTime := 0, currentDelay := 0,
                  currentStep := 0, loadingIsActive := True,
                  progressAircraftPreset := Finite 0, progressAircraftPresetId := Finite 0\<rparr>,
     sim = h\<rparr>"
  using assms by (simp add: update_def)

lemma in_run_start:
  assumes "isInitialized st" "aircraftIsReady st" "0 < loadAircraftPresetRequest st"
    "simOnGround st" "\<not> loadingIsActive st"
    "presetProcedures (loadAircraftPresetRequest st) = Some proc"
  shows "in_run (loader (update almostEqual exec presetProcedures pData st h))
           (loadAircraftPresetRequest st) proc 0 0 0"
  using assms by (simp add: update_start in_run_def)

lemma in_run_wait:
  assumes "in_run st pid proc k t d" "k < length proc" "t + dt pData * 1000 \<le> d"
  shows "in_run (loader (update almostEqual exec presetProcedures pData st h))
           pid proc k (t + dt pData * 1000) d"
  using assms by (simp add: update_def in_run_def Let_def)

lemma in_run_action:
  assumes "in_run st pid proc k t d" "k < length proc" "d < t + dt pData * 1000"
    "\<not> isConditional (proc ! k)" "expectedStateCheckCode (proc ! k) = []"
  shows "in_run (loader (update almostEqual exec presetProcedures pData st h))
           pid proc (Suc k) (t + dt pData * 1000) (t + dt pData * 1000 + delayAfter (proc ! k))"
  using assms by (simp add: update_def in_run_def Let_def split: prod.split)

lemma update_done:
  assumes "in_run st pid proc k t d" "length proc \<le> k"
  shows "update almostEqual exec presetProcedures pData st h =
    \<lparr>retval = True,
     effects = [SetRequest pid, WriteProgress (Finite 0), WriteProgressId (Finite 0), SetRequest 0],
     loader = st\<lparr>loadAircraftPresetRequest := 0, progressAircraftPreset := Finite 0,
                  progressAircraftPresetId := Finite 0, loadingIsActive := False\<rparr>,
     sim = h\<rparr>"
  using assms by (simp add: update_def in_run_def Let_def)

lemma outcome_wait:
  assumes "in_run st pid proc k t d" "k < length proc" "t + dt pData * 1000 \<le> d"
  shows "effects (update almostEqual exec presetProcedures pData st h) = [SetRequest pid] \<and>
    sim (update almostEqual exec presetProcedures pData st h) = h"
  using assms by (simp add: update_def in_run_def Let_def)

lemma outcome_action:
  assumes "in_run st pid proc k t d" "k < length proc" "d < t + dt pData * 1000"
    "\<not> isConditional (proc ! k)" "expectedStateCheckCode (proc ! k) = []"
  shows "effects (update almostEqual exec presetProcedures pData st h) =
      [SetRequest pid, WriteProgress (progress_fraction k (length proc)),
       WriteProgressId (Finite (of_int (id (proc ! k)))),
       ExecuteCalculatorCode (actionCode (proc ! k))] \<and>
    sim (update almostEqual exec presetProcedures pData st h) = snd (exec (actionCode (proc ! k)) h)"
  using assms by (simp add: update_def in_run_def Let_def case_prod_beta)

section \<open>Consecutive calls\<close>

lemma fst_ticks_Suc:
  "fst (ticks almostEqual exec presetProcedures pData (Suc n) st h) =
   loader (update almostEqual exec presetProcedures pData
     (fst (ticks almostEqual exec presetProcedures pData n st h))
     (snd (ticks almostEqual exec presetProcedures pData n st h)))"
  by (simp add: Let_def split: prod.split)

lemma snd_ticks_Suc:
  "snd (ticks almostEqual exec presetProcedures pData (Suc n) st h) =
   sim (update almostEqual exec presetProcedures pData
     (fst (ticks almostEqual exec presetProcedures pData n st h))
     (snd (ticks almostEqual exec presetProcedures pData n st h)))"
  by (simp add: Let_def split: prod.split)

lemma call_eq:
  "call almostEqual exec presetProcedures pData n st h =
   update almostEqual exec presetProcedures pData
     (fst (ticks almostEqual exec presetProcedures pData n st h))
     (snd (ticks almostEqual exec presetProcedures pData n st h))"
  by (simp add: call_def split: prod.split)

lemma in_run_ticks_wait:
  assumes "in_run (fst (ticks almostEqual exec presetProcedures pData n st h)) pid proc k t d"
    "k < length proc" "t + dt pData * 1000 \<le> d"
  shows "in_run (fst (ticks almostEqual exec presetProcedures pData (Suc n) st h))
           pid proc k (t + dt pData * 1000) d"
  unfolding fst_ticks_Suc using assms by (rule in_run_wait)

lemma in_run_ticks_action:
  assumes "in_run (fst (ticks almostEqual exec presetProcedures pData n st h)) pid proc k t d"
    "k < length proc" "d < t + dt pData * 1000"
    "\<not> isConditional (proc ! k)" "expectedStateCheckCode (proc ! k) = []"
  shows "in_run (fst (ticks almostEqual exec presetProcedures pData (Suc n) st h))
           pid proc (Suc k) (t + dt pData * 1000) (t + dt pData * 1000 + delayAfter (proc ! k))"
  unfolding fst_ticks_Suc using assms by (rule in_run_action)

section \<open>Script evaluations per call\<close>

text \<open>
  C1, as stated, fails: on an action step whose expected-state check is not empty and
  evaluates to zero, one call evaluates the check and then the action code.
\<close>

theorem single_evaluation_counterexample:
  "\<not> length (evaluated (effects (update (almostEqual_tol 0) (exec_stub (\<lambda>c. Finite 0))
        [1 \<mapsto> checked_steps] tick50 (mid_run checked_steps 0) []))) \<le> 1"
  by (simp add: update_def Let_def sample_defs)

text \<open>
  C1 (amended): every call of \<^verbatim>\<open>update\<close> evaluates at most two scripts before it
  returns. It evaluates none, or the action code of the current step alone, or the
  expected-state check of the current step alone, or the check followed by the action
  code; the last happens only on an action step whose check is not empty and evaluates
  to approximately zero.
\<close>

theorem at_most_two_evaluations:
  "length (evaluated (effects (update almostEqual exec presetProcedures pData st h))) \<le> 2 \<and>
   (let s = currentProcedure st ! currentStep st;
        scripts = evaluated (effects (update almostEqual exec presetProcedures pData st h))
    in scripts = [] \<or> scripts = [actionCode s] \<or> scripts = [expectedStateCheckCode s] \<or>
       (scripts = [expectedStateCheckCode s, actionCode s] \<and> \<not> isConditional s \<and>
        expectedStateCheckCode s \<noteq> [] \<and>
        almostEqual (Finite 0) (fst (exec (expectedStateCheckCode s) h))))"
  by (simp add: update_def Let_def split: option.split prod.split)

section \<open>Abnormal ends of a run\<close>

text \<open>
  C2, as stated, fails. A run of three steps is started and driven by four ticks of 50 ms,
  so that step 1 has been executed and the progress variables read 1/3 and 2. Then the
  request is set to 0 (first conjunct), or the aircraft leaves the ground (second
  conjunct): after the call the progress variables are not both zero.
\<close>

theorem progress_reset_counterexample:
  "\<not> (progressAircraftPreset (loader (update (almostEqual_tol 0) (exec_stub (\<lambda>c. Finite 0))
          [1 \<mapsto> three_steps] tick50
          ((fst (ticks (almostEqual_tol 0) (exec_stub (\<lambda>c. Finite 0)) [1 \<mapsto> three_steps] tick50 5
                  (fresh\<lparr>loadAircraftPresetRequest := 1\<rparr>) []))\<lparr>loadAircraftPresetRequest := 0\<rparr>)
          [''a'', ''b''])) = Finite 0 \<and>
        progressAircraftPresetId (loader (update (almostEqual_tol 0) (exec_stub (\<lambda>c. Finite 0))
          [1 \<mapsto> three_steps] tick50
          ((fst (ticks (almostEqual_tol 0) (exec_stub (\<lambda>c. Finite 0)) [1 \<mapsto> three_steps] tick50 5
                  (fresh\<lparr>loadAircraftPresetRequest := 1\<rparr>) []))\<lparr>loadAircraftPresetRequest := 0\<rparr>)
          [''a'', ''b''])) = Finite 0) \<and>
   \<not> (progressAircraftPreset (loader (update (almostEqual_tol 0) (exec_stub (\<lambda>c. Finite 0))
          [1 \<mapsto> three_steps] tick50
          ((fst (ticks (almostEqual_tol 0) (exec_stub (\<lambda>c. Finite 0)) [1 \<mapsto> three_steps] tick50 5
                  (fresh\<lparr>loadAircraftPresetRequest := 1\<rparr>) []))\<lparr>simOnGround := False\<rparr>)
          [''a'', ''b''])) = Finite 0 \<and>
        progressAircraftPresetId (loader (update (almostEqual_tol 0) (exec_stub (\<lambda>c. Finite 0))
          [1 \<mapsto> three_steps] tick50
          ((fst (ticks (almostEqual_tol 0) (exec_stub (\<lambda>c. Finite 0)) [1 \<mapsto> three_steps] tick50 5
                  (fresh\<lparr>loadAircraftPresetRequest := 1\<rparr>) []))\<lparr>simOnGround := False\<rparr>)
          [''a'', ''b''])) = Finite 0)"
  by (simp add: update_def Let_def sample_defs eval_nat_numeral)

text \<open>
  C2 (amended): on every abnormal end of a run, that is a request while airborne, a
  request withdrawn (not positive) during a run, or a request for a preset that is not
  found, the call leaves \<open>loadingIsActive\<close> false and the request not positive, and it
  does not write the two progress variables: both keep the value they had before the call.
\<close>

theorem abnormal_end_keeps_progress:
  assumes "isInitialized st" "aircraftIsReady st"
    and "(0 < loadAircraftPresetRequest st \<and> \<not> simOnGround st) \<or>
         (loadAircraftPresetRequest st \<le> 0 \<and> loadingIsActive st) \<or>
         (0 < loadAircraftPresetRequest st \<and> simOnGround st \<and> \<not> loadingIsActive st \<and>
          presetProcedures (loadAircraftPresetRequest st) = None)"
  shows "\<not> loadingIsActive (loader (update almostEqual exec presetProcedures pData st h)) \<and>
    loadAircraftPresetRequest (loader (update almostEqual exec presetProcedures pData st h)) \<le> 0 \<and>
    progressAircraftPreset (loader (update almostEqual exec presetProcedures pData st h)) =
      progressAircraftPreset st \<and>
    progressAircraftPresetId (loader (update almostEqual exec presetProcedures pData st h)) =
      progressAircraftPresetId st \<and>
    (\<forall>v. WriteProgress v \<notin> set (effects (update almostEqual exec presetProcedures pData st h)) \<and>
         WriteProgressId v \<notin> set (effects (update almostEqual exec presetProcedures pData st h)))"
  using assms by (auto simp add: update_def)

text \<open>
  The three ends at a run of \<open>three_steps\<close> that shows 1/3 and 2: airborne, withdrawn,
  and (with no run going on) a request for preset 9, which the repository does not hold.
\<close>

theorem abnormal_end_keeps_progress_witness:
  "progressAircraftPresetId (loader (update (almostEqual_tol 0) (exec_stub (\<lambda>c. Finite 0))
      [1 \<mapsto> three_steps] tick50
      ((mid_run three_steps 2)\<lparr>progressAircraftPreset := Finite (1 / 3),
         progressAircraftPresetId := Finite 2, simOnGround := False\<rparr>) [])) = Finite 2 \<and>
   progressAircraftPreset (loader (update (almostEqual_tol 0) (exec_stub (\<lambda>c. Finite 0))
      [1 \<mapsto> three_steps] tick50
      ((mid_run three_steps 2)\<lparr>progressAircraftPreset := Finite (1 / 3),
         progressAircraftPresetId := Finite 2, loadAircraftPresetRequest := 0\<rparr>) [])) = Finite (1 / 3) \<and>
   \<not> loadingIsActive (loader (update (almostEqual_tol 0) (exec_stub (\<lambda>c. Finite 0))
      [1 \<mapsto> three_steps] tick50
      (fresh\<lparr>progressAircraftPreset := Finite (1 / 3),
         progressAircraftPresetId := Finite 2, loadAircraftPresetRequest := 9\<rparr>) [])) \<and>
   progressAircraftPresetId (loader (update (almostEqual_tol 0) (exec_stub (\<lambda>c. Finite 0))
      [1 \<mapsto> three_steps] tick50
      (fresh\<lparr>progressAircraftPreset := Finite (1 / 3),
         progressAircraftPresetId := Finite 2, loadAircraftPresetRequest := 9\<rparr>) [])) = Finite 2"
  using
    abnormal_end_keeps_progress [of
      "(mid_run three_steps 2)\<lparr>progressAircraftPreset := Finite (1 / 3),
         progressAircraftPresetId := Finite 2, simOnGround := False\<rparr>"
      "[1 \<mapsto> three_steps]" "almostEqual_tol 0" "exec_stub (\<lambda>c. Finite 0)" tick50 "[]"]
    abnormal_end_keeps_progress [of
      "(mid_run three_steps 2)\<lparr>progressAircraftPreset := Finite (1 / 3),
         progressAircraftPresetId := Finite 2, loadAircraftPresetRequest := 0\<rparr>"
      "[1 \<mapsto> three_steps]" "almostEqual_tol 0" "exec_stub (\<lambda>c. Finite 0)" tick50 "[]"]
    abnormal_end_keeps_progress [of
      "fresh\<lparr>progressAircraftPreset := Finite (1 / 3),
         progressAircraftPresetId := Finite 2, loadAircraftPresetRequest := 9\<rparr>"
      "[1 \<mapsto> three_steps]" "almostEqual_tol 0" "exec_stub (\<lambda>c. Finite 0)" tick50 "[]"]
  by (simp add: fresh_def mid_run_def)

section \<open>Skip-ahead\<close>

text \<open>
  C3: the call is past the gates, a run is going on, on the ground, and the current step
  is due. If that step is an action step with a non-empty expected-state check, and the
  check evaluates to a value that is not approximately zero, then the call advances
  \<open>currentStep\<close> by one and leaves \<open>currentDelay\<close> at 0. The check is the only
  calculator code it evaluates: the simulator is in the state the check left it in, and
  the action code has not run.
\<close>

theorem skip_ahead:
  assumes "isInitialized st" "aircraftIsReady st" "0 < loadAircraftPresetRequest st"
    "simOnGround st" "loadingIsActive st"
    "currentStep st < length (currentProcedure st)"
    "currentDelay st < currentLoadingTime st + dt pData * 1000"
    "step = currentProcedure st ! currentStep st"
    "\<not> isConditional step" "expectedStateCheckCode step \<noteq> []"
    "\<not> almostEqual (Finite 0) (fst (exec (expectedStateCheckCode step) h))"
  shows "currentStep (loader (update almostEqual exec presetProcedures pData st h)) = currentStep st + 1 \<and>
    currentDelay (loader (update almostEqual exec presetProcedures pData st h)) = 0 \<and>
    effects (update almostEqual exec presetProcedures pData st h) =
      [SetRequest (currentProcedureID st), ExecuteCalculatorCode (expectedStateCheckCode step)] \<and>
    evaluated (effects (update almostEqual exec presetProcedures pData st h)) =
      [expectedStateCheckCode step] \<and>
    sim (update almostEqual exec presetProcedures pData st h) =
      snd (exec (expectedStateCheckCode step) h)"
  using assms by (simp add: update_def Let_def case_prod_beta)

theorem skip_ahead_witness:
  "currentStep (loader (update (almostEqual_tol 0) (exec_stub (\<lambda>c. Finite 1))
        [1 \<mapsto> checked_steps] tick50 (mid_run checked_steps 0) [])) = 1 \<and>
   currentDelay (loader (update (almostEqual_tol 0) (exec_stub (\<lambda>c. Finite 1))
        [1 \<mapsto> checked_steps] tick50 (mid_run checked_steps 0) [])) = 0 \<and>
   evaluated (effects (update (almostEqual_tol 0) (exec_stub (\<lambda>c. Finite 1))
        [1 \<mapsto> checked_steps] tick50 (mid_run checked_steps 0) [])) = [''p''] \<and>
   sim (update (almostEqual_tol 0) (exec_stub (\<lambda>c. Finite 1))
        [1 \<mapsto> checked_steps] tick50 (mid_run checked_steps 0) []) = [''p'']"
  using skip_ahead [of "mid_run checked_steps 0" tick50 "checked_steps ! 0" "almostEqual_tol 0"
      "exec_stub (\<lambda>c. Finite 1)" "[]" "[1 \<mapsto> checked_steps]"]
  by (simp add: sample_defs)

section \<open>Requests while airborne\<close>

text \<open>
  A tick that returns at one of the two gates (the module not initialized, the aircraft not
  ready) does nothing at all; on such a tick too, a positive request while airborne starts
  no run and advances none.
\<close>

lemma airborne_request_starts_nothing:
  assumes "0 < loadAircraftPresetRequest st" "\<not> simOnGround st"
  shows "evaluated (effects (update almostEqual exec presetProcedures pData st h)) = [] \<and>
    sim (update almostEqual exec presetProcedures pData st h) = h \<and>
    currentStep (loader (update almostEqual exec presetProcedures pData st h)) = currentStep st \<and>
    (loadingIsActive (loader (update almostEqual exec presetProcedures pData st h)) \<longrightarrow>
       loadingIsActive st)"
  using assms by (simp add: update_def)

text \<open>
  C4: on every tick that \<^verbatim>\<open>update\<close> processes (the module initialized, the aircraft
  ready) with a positive request and the on-ground flag false, the loader starts no run and
  advances none: the request is forced to 0, \<open>loadingIsActive\<close> becomes false, and no
  step is executed. Forcing the request is the only effect; no calculator code is
  evaluated, \<open>currentStep\<close> and every other member stay as they were.
\<close>

theorem airborne_request_rejected:
  assumes "isInitialized st" "aircraftIsReady st"
    "0 < loadAircraftPresetRequest st" "\<not> simOnGround st"
  shows "loadAircraftPresetRequest (loader (update almostEqual exec presetProcedures pData st h)) = 0 \<and>
    \<not> loadingIsActive (loader (update almostEqual exec presetProcedures pData st h)) \<and>
    effects (update almostEqual exec presetProcedures pData st h) = [SetRequest 0] \<and>
    evaluated (effects (update almostEqual exec presetProcedures pData st h)) = [] \<and>
    sim (update almostEqual exec presetProcedures pData st h) = h \<and>
    currentStep (loader (update almostEqual exec presetProcedures pData st h)) = currentStep st \<and>
    loader (update almostEqual exec presetProcedures pData st h) =
      st\<lparr>loadAircraftPresetRequest := 0, loadingIsActive := False\<rparr>"
  using assms by (simp add: update_def)

theorem airborne_request_rejected_witness:
  "loadAircraftPresetRequest (loader (update (almostEqual_tol 0) (exec_stub (\<lambda>c. Finite 0))
      [1 \<mapsto> three_steps] tick50 ((mid_run three_steps 1)\<lparr>simOnGround := False\<rparr>) [])) = 0 \<and>
   \<not> loadingIsActive (loader (update (almostEqual_tol 0) (exec_stub (\<lambda>c. Finite 0))
      [1 \<mapsto> three_steps] tick50 ((mid_run three_steps 1)\<lparr>simOnGround := False\<rparr>) [])) \<and>
   currentStep (loader (update (almostEqual_tol 0) (exec_stub (\<lambda>c. Finite 0))
      [1 \<mapsto> three_steps] tick50 ((mid_run three_steps 1)\<lparr>simOnGround := False\<rparr>) [])) = 1 \<and>
   effects (update (almostEqual_tol 0) (exec_stub (\<lambda>c. Finite 0))
      [1 \<mapsto> three_steps] tick50 ((mid_run three_steps 1)\<lparr>simOnGround := False\<rparr>) []) =
     [SetRequest 0]"
  using airborne_request_rejected [of "(mid_run three_steps 1)\<lparr>simOnGround := False\<rparr>"
      "almostEqual_tol 0" "exec_stub (\<lambda>c. Finite 0)" "[1 \<mapsto> three_steps]" tick50 "[]"]
  by (simp add: fresh_def mid_run_def)

section \<open>Pacing\<close>

text \<open>
  C5: across one call of \<^verbatim>\<open>update\<close>, \<open>currentStep\<close> increases by at most 1, for every
  starting state, request, on-ground flag, tick delta and result of script evaluation.
\<close>

theorem one_step_per_tick:
  "currentStep (loader (update almostEqual exec presetProcedures pData st h)) \<le> currentStep st + 1"
  by (simp add: update_def Let_def split: option.split prod.split)

section \<open>The empty procedure\<close>

text \<open>
  C6: a request for a procedure with no steps arrives while no run is going on (the module
  initialized, the aircraft ready and on the ground). The first call \<open>r1\<close> starts the
  run; the next call \<open>r2\<close> takes the completion path: it writes 0 to both progress
  variables, clears the request to 0 and sets \<open>loadingIsActive\<close> to false. Neither call
  evaluates calculator code.
\<close>

theorem empty_procedure_completes:
  assumes "isInitialized st" "aircraftIsReady st" "simOnGround st" "\<not> loadingIsActive st"
    "0 < loadAircraftPresetRequest st"
    "presetProcedures (loadAircraftPresetRequest st) = Some []"
    "r1 = update almostEqual exec presetProcedures pData st h"
    "r2 = update almostEqual exec presetProcedures pData' (loader r1) (sim r1)"
  shows "loadingIsActive (loader r1) \<and> evaluated (effects r1) = [] \<and>
    effects r2 = [SetRequest (loadAircraftPresetRequest st), WriteProgress (Finite 0),
                  WriteProgressId (Finite 0), SetRequest 0] \<and>
    progressAircraftPreset (loader r2) = Finite 0 \<and>
    progressAircraftPresetId (loader r2) = Finite 0 \<and>
    loadAircraftPresetRequest (loader r2) = 0 \<and>
    \<not> loadingIsActive (loader r2) \<and> evaluated (effects r2) = [] \<and> sim r2 = h"
  using assms by (simp add: update_def Let_def)

theorem empty_procedure_completes_witness:
  "loadingIsActive (loader (update (almostEqual_tol 0) (exec_stub (\<lambda>c. Finite 0)) [1 \<mapsto> []]
      tick50 (fresh\<lparr>loadAircraftPresetRequest := 1\<rparr>) [])) \<and>
   effects (update (almostEqual_tol 0) (exec_stub (\<lambda>c. Finite 0)) [1 \<mapsto> []] tick50
      (loader (update (almostEqual_tol 0) (exec_stub (\<lambda>c. Finite 0)) [1 \<mapsto> []]
         tick50 (fresh\<lparr>loadAircraftPresetRequest := 1\<rparr>) []))
      (sim (update (almostEqual_tol 0) (exec_stub (\<lambda>c. Finite 0)) [1 \<mapsto> []]
         tick50 (fresh\<lparr>loadAircraftPresetRequest := 1\<rparr>) []))) =
     [SetRequest 1, WriteProgress (Finite 0), WriteProgressId (Finite 0), SetRequest 0] \<and>
   \<not> loadingIsActive (loader (update (almostEqual_tol 0) (exec_stub (\<lambda>c. Finite 0)) [1 \<mapsto> []] tick50
      (loader (update (almostEqual_tol 0) (exec_stub (\<lambda>c. Finite 0)) [1 \<mapsto> []]
         tick50 (fresh\<lparr>loadAircraftPresetRequest := 1\<rparr>) []))
      (sim (update (almostEqual_tol 0) (exec_stub (\<lambda>c. Finite 0)) [1 \<mapsto> []]
         tick50 (fresh\<lparr>loadAircraftPresetRequest := 1\<rparr>) []))))"
  using empty_procedure_completes [of "fresh\<lparr>loadAircraftPresetRequest := 1\<rparr>" "[1 \<mapsto> []]"
      "update (almostEqual_tol 0) (exec_stub (\<lambda>c. Finite 0)) [1 \<mapsto> []]
         tick50 (fresh\<lparr>loadAircraftPresetRequest := 1\<rparr>) []"
      "almostEqual_tol 0" "exec_stub (\<lambda>c. Finite 0)" tick50 "[]"
      "update (almostEqual_tol 0) (exec_stub (\<lambda>c. Finite 0)) [1 \<mapsto> []] tick50
        (loader (update (almostEqual_tol 0) (exec_stub (\<lambda>c. Finite 0)) [1 \<mapsto> []]
           tick50 (fresh\<lparr>loadAircraftPresetRequest := 1\<rparr>) []))
        (sim (update (almostEqual_tol 0) (exec_stub (\<lambda>c. Finite 0)) [1 \<mapsto> []]
           tick50 (fresh\<lparr>loadAircraftPresetRequest := 1\<rparr>) []))"
      tick50]
  by (simp add: fresh_def)

section \<open>Three steps with delays of 100, 200 and 0 ms\<close>

text \<open>
  In this section the first call is the one that starts the run, and \<open>Suc k\<close> calls are
  the start followed by \<open>k\<close> ticks of 50 ms.

  C7, as stated, fails: the loader does not stay on step 0 for the first two ticks and
  move to step 1 on the third. The first tick already executes step 0 and increments
  \<open>currentStep\<close>, which is 1 after each of the first three ticks.
\<close>

theorem three_step_schedule_counterexample:
  "\<not> (currentStep (fst (ticks (almostEqual_tol 0) (exec_stub (\<lambda>c. Finite 0)) [1 \<mapsto> three_steps]
            tick50 (Suc 1) (fresh\<lparr>loadAircraftPresetRequest := 1\<rparr>) [])) = 0 \<and>
        currentStep (fst (ticks (almostEqual_tol 0) (exec_stub (\<lambda>c. Finite 0)) [1 \<mapsto> three_steps]
            tick50 (Suc 2) (fresh\<lparr>loadAircraftPresetRequest := 1\<rparr>) [])) = 0 \<and>
        currentStep (fst (ticks (almostEqual_tol 0) (exec_stub (\<lambda>c. Finite 0)) [1 \<mapsto> three_steps]
            tick50 (Suc 3) (fresh\<lparr>loadAircraftPresetRequest := 1\<rparr>) [])) = 1)"
  by (simp add: update_def Let_def sample_defs eval_nat_numeral)

text \<open>
  C7 (amended): for a procedure of three action steps with \<open>delayAfter\<close> 100, 200 and
  0 ms and empty expected-state checks, driven by ticks of 50 ms after the run starts:
  \<open>currentStep\<close> is 0 after the start; tick 1 executes step 0, and \<open>currentStep\<close> is 1
  after ticks 1 to 3; tick 4 executes step 1, and \<open>currentStep\<close> is 2 after ticks 4 to 8;
  tick 9 executes step 2, so that \<open>currentStep\<close> reaches 3 with 450 ms on the run
  timer, more than 100 + 200 ms; tick 10 completes the run and clears the request.

  The first group of conjuncts gives \<open>currentStep\<close>, the timer and the final flags. The
  second gives what each call does: \<open>call ... k\<close> is the start for \<open>k = 0\<close> and tick
  \<open>k\<close> after it. Ticks 1, 4 and 9 write the progress of step 0, 1 and 2 and evaluate
  its action code, and nothing else is evaluated: every other tick only re-asserts the
  request, and the simulator is in the state the three action codes, in order, left it in.
\<close>

theorem three_step_schedule:
  assumes st: "isInitialized st" "aircraftIsReady st" "simOnGround st" "\<not> loadingIsActive st"
    "0 < loadAircraftPresetRequest st"
    "presetProcedures (loadAircraftPresetRequest st) = Some [s0, s1, s2]"
   and steps: "\<not> isConditional s0" "\<not> isConditional s1" "\<not> isConditional s2"
    "expectedStateCheckCode s0 = []" "expectedStateCheckCode s1 = []"
    "expectedStateCheckCode s2 = []"
    "delayAfter s0 = 100" "delayAfter s1 = 200" "delayAfter s2 = 0"
   and dt: "dt pData = 50 / 1000"
  shows "(currentStep (fst (ticks almostEqual exec presetProcedures pData (Suc 0) st h)) = 0 \<and>
     currentStep (fst (ticks almostEqual exec presetProcedures pData (Suc 1) st h)) = 1 \<and>
     currentStep (fst (ticks almostEqual exec presetProcedures pData (Suc 2) st h)) = 1 \<and>
     currentStep (fst (ticks almostEqual exec presetProcedures pData (Suc 3) st h)) = 1 \<and>
     currentStep (fst (ticks almostEqual exec presetProcedures pData (Suc 4) st h)) = 2 \<and>
     currentStep (fst (ticks almostEqual exec presetProcedures pData (Suc 5) st h)) = 2 \<and>
     currentStep (fst (ticks almostEqual exec presetProcedures pData (Suc 6) st h)) = 2 \<and>
     currentStep (fst (ticks almostEqual exec presetProcedures pData (Suc 7) st h)) = 2 \<and>
     currentStep (fst (ticks almostEqual exec presetProcedures pData (Suc 8) st h)) = 2 \<and>
     currentStep (fst (ticks almostEqual exec presetProcedures pData (Suc 9) st h)) = 3 \<and>
     currentLoadingTime (fst (ticks almostEqual exec presetProcedures pData (Suc 9) st h)) = 450 \<and>
     \<not> loadingIsActive (fst (ticks almostEqual exec presetProcedures pData (Suc 10) st h)) \<and>
     loadAircraftPresetRequest (fst (ticks almostEqual exec presetProcedures pData (Suc 10) st h)) = 0) \<and>
    (effects (call almostEqual exec presetProcedures pData 0 st h) =
       [WriteProgress (Finite 0), WriteProgressId (Finite 0)] \<and>
     effects (call almostEqual exec presetProcedures pData 1 st h) =
       [SetRequest (loadAircraftPresetRequest st), WriteProgress (Finite 0),
        WriteProgressId (Finite (of_int (id s0))), ExecuteCalculatorCode (actionCode s0)] \<and>
     effects (call almostEqual exec presetProcedures pData 2 st h) =
       [SetRequest (loadAircraftPresetRequest st)] \<and>
     effects (call almostEqual exec presetProcedures pData 3 st h) =
       [SetRequest (loadAircraftPresetRequest st)] \<and>
     effects (call almostEqual exec presetProcedures pData 4 st h) =
       [SetRequest (loadAircraftPresetRequest st), WriteProgress (Finite (1 / 3)),
        WriteProgressId (Finite (of_int (id s1))), ExecuteCalculatorCode (actionCode s1)] \<and>
     effects (call almostEqual exec presetProcedures pData 5 st h) =
       [SetRequest (loadAircraftPresetRequest st)] \<and>
     effects (call almostEqual exec presetProcedures pData 6 st h) =
       [SetRequest (loadAircraftPresetRequest st)] \<and>
     effects (call almostEqual exec presetProcedures pData 7 st h) =
       [SetRequest (loadAircraftPresetRequest st)] \<and>
     effects (call almostEqual exec presetProcedures pData 8 st h) =
       [SetRequest (loadAircraftPresetRequest st)] \<and>
     effects (call almostEqual exec presetProcedures pData 9 st h) =
       [SetRequest (loadAircraftPresetRequest st), WriteProgress (Finite (2 / 3)),
        WriteProgressId (Finite (of_int (id s2))), ExecuteCalculatorCode (actionCode s2)] \<and>
     effects (call almostEqual exec presetProcedures pData 10 st h) =
       [SetRequest (loadAircraftPresetRequest st), WriteProgress (Finite 0),
        WriteProgressId (Finite 0), SetRequest 0] \<and>
     sim (call almostEqual exec presetProcedures pData 0 st h) = h \<and>
     sim (call almostEqual exec presetProcedures pData 1 st h) = snd (exec (actionCode s0) h) \<and>
     sim (call almostEqual exec presetProcedures pData 2 st h) = snd (exec (actionCode s0) h) \<and>
     sim (call almostEqual exec presetProcedures pData 3 st h) = snd (exec (actionCode s0) h) \<and>
     sim (call almostEqual exec presetProcedures pData 4 st h) =
       snd (exec (actionCode s1) (snd (exec (actionCode s0) h))) \<and>
     sim (call almostEqual exec presetProcedures pData 5 st h) =
       snd (exec (actionCode s1) (snd (exec (actionCode s0) h))) \<and>
     sim (call almostEqual exec presetProcedures pData 6 st h) =
       snd (exec (actionCode s1) (snd (exec (actionCode s0) h))) \<and>
     sim (call almostEqual exec presetProcedures pData 7 st h) =
       snd (exec (actionCode s1) (snd (exec (actionCode s0) h))) \<and>
     sim (call almostEqual exec presetProcedures pData 8 st h) =
       snd (exec (actionCode s1) (snd (exec (actionCode s0) h))) \<and>
     sim (call almostEqual exec presetProcedures pData 9 st h) =
       snd (exec (actionCode s2) (snd (exec (actionCode s1) (snd (exec (actionCode s0) h))))) \<and>
     sim (call almostEqual exec presetProcedures pData 10 st h) =
       snd (exec (actionCode s2) (snd (exec (actionCode s1) (snd (exec (actionCode s0) h))))))"
proof -
  let ?S = "\<lambda>n. fst (ticks almostEqual exec presetProcedures pData n st h)"
  let ?H = "\<lambda>n. snd (ticks almostEqual exec presetProcedures pData n st h)"
  let ?C = "\<lambda>n. call almostEqual exec presetProcedures pData n st h"
  define pid where "pid = loadAircraftPresetRequest st"
  define proc where "proc = [s0, s1, s2]"
  define ha where "ha = snd (exec (actionCode s0) h)"
  define hb where "hb = snd (exec (actionCode s1) ha)"
  define hc where "hc = snd (exec (actionCode s2) hb)"
  have len: "length proc = 3"
    by (simp add: proc_def)
  have p0: "\<not> isConditional (proc ! 0)" "expectedStateCheckCode (proc ! 0) = []"
      "delayAfter (proc ! 0) = 100" "proc ! 0 = s0"
    using steps by (simp_all add: proc_def)
  have p1: "\<not> isConditional (proc ! 1)" "expectedStateCheckCode (proc ! 1) = []"
      "delayAfter (proc ! 1) = 200" "proc ! 1 = s1"
    using steps by (simp_all add: proc_def)
  have p2: "\<not> isConditional (proc ! 2)" "expectedStateCheckCode (proc ! 2) = []"
      "delayAfter (proc ! 2) = 0" "proc ! 2 = s2"
    using steps by (simp_all add: proc_def)
  have C: "\<And>n. ?C n = update almostEqual exec presetProcedures pData (?S n) (?H n)"
    by (rule call_eq)
  have H: "\<And>n. ?H (Suc n) = sim (?C n)"
    by (simp add: C Let_def split: prod.split)
  have c0: "?C 0 = update almostEqual exec presetProcedures pData st h"
    by (simp add: C)
  have e0: "effects (?C 0) = [WriteProgress (Finite 0), WriteProgressId (Finite 0)] \<and> sim (?C 0) = h"
    using st by (simp add: c0 update_start)
  have "?S 1 = loader (update almostEqual exec presetProcedures pData st h)"
    by (simp add: Let_def)
  with st have a1: "in_run (?S 1) pid proc 0 0 0"
    by (simp add: in_run_start pid_def proc_def)
  have h1: "?H 1 = h"
    using H [of 0] e0 by simp
  have e1: "effects (?C 1) = [SetRequest pid, WriteProgress (Finite 0),
        WriteProgressId (Finite (of_int (id s0))), ExecuteCalculatorCode (actionCode s0)] \<and>
      sim (?C 1) = ha"
    using outcome_action [OF a1, of pData almostEqual exec presetProcedures "?H 1"] len p0 dt h1
    by (simp add: C progress_fraction_def ha_def)
  have a2: "in_run (?S 2) pid proc 1 50 150"
    using in_run_ticks_action [OF a1] len p0 dt by (simp add: eval_nat_numeral)
  have h2: "?H 2 = ha"
    using H [of 1] e1 by (simp add: eval_nat_numeral)
  have e2: "effects (?C 2) = [SetRequest pid] \<and> sim (?C 2) = ha"
    using outcome_wait [OF a2, of pData almostEqual exec presetProcedures "?H 2"] len dt h2
    by (simp add: C)
  have a3: "in_run (?S 3) pid proc 1 100 150"
    using in_run_ticks_wait [OF a2] len dt by (simp add: eval_nat_numeral)
  have h3: "?H 3 = ha"
    using H [of 2] e2 by (simp add: eval_nat_numeral)
  have e3: "effects (?C 3) = [SetRequest pid] \<and> sim (?C 3) = ha"
    using outcome_wait [OF a3, of pData almostEqual exec presetProcedures "?H 3"] len dt h3
    by (simp add: C)
  have a4: "in_run (?S 4) pid proc 1 150 150"
    using in_run_ticks_wait [OF a3] len dt by (simp add: eval_nat_numeral)
  have h4: "?H 4 = ha"
    using H [of 3] e3 by (simp add: eval_nat_numeral)
  have e4: "effects (?C 4) = [SetRequest pid, WriteProgress (Finite (1 / 3)),
        WriteProgressId (Finite (of_int (id s1))), ExecuteCalculatorCode (actionCode s1)] \<and>
      sim (?C 4) = hb"
    using outcome_action [OF a4, of pData almostEqual exec presetProcedures "?H 4"] len p1 dt h4
    by (simp add: C progress_fraction_def hb_def)
  have a5: "in_run (?S 5) pid proc 2 200 400"
    using in_run_ticks_action [OF a4] len p1 dt by (simp add: eval_nat_numeral)
  have h5: "?H 5 = hb"
    using H [of 4] e4 by (simp add: eval_nat_numeral)
  have e5: "effects (?C 5) = [SetRequest pid] \<and> sim (?C 5) = hb"
    using outcome_wait [OF a5, of pData almostEqual exec presetProcedures "?H 5"] len dt h5
    by (simp add: C)
  have a6: "in_run (?S 6) pid proc 2 250 400"
    using in_run_ticks_wait [OF a5] len dt by (simp add: eval_nat_numeral)
  have h6: "?H 6 = hb"
    using H [of 5] e5 by (simp add: eval_nat_numeral)
  have e6: "effects (?C 6) = [SetRequest pid] \<and> sim (?C 6) = hb"
    using outcome_wait [OF a6, of pData almostEqual exec presetProcedures "?H 6"] len dt h6
    by (simp add: C)
  have a7: "in_run (?S 7) pid proc 2 300 400"
    using in_run_ticks_wait [OF a6] len dt by (simp add: eval_nat_numeral)
  have h7: "?H 7 = hb"
    using H [of 6] e6 by (simp add: eval_nat_numeral)
  have e7: "effects (?C 7) = [SetRequest pid] \<and> sim (?C 7) = hb"
    using outcome_wait [OF a7, of pData almostEqual exec presetProcedures "?H 7"] len dt h7
    by (simp add: C)
  have a8: "in_run (?S 8) pid proc 2 350 400"
    using in_run_ticks_wait [OF a7] len dt by (simp add: eval_nat_numeral)
  have h8: "?H 8 = hb"
    using H [of 7] e7 by (simp add: eval_nat_numeral)
  have e8: "effects (?C 8) = [SetRequest pid] \<and> sim (?C 8) = hb"
    using outcome_wait [OF a8, of pData almostEqual exec presetProcedures "?H 8"] len dt h8
    by (simp add: C)
  have a9: "in_run (?S 9) pid proc 2 400 400"
    using in_run_ticks_wait [OF a8] len dt by (simp add: eval_nat_numeral)
  have h9: "?H 9 = hb"
    using H [of 8] e8 by (simp add: eval_nat_numeral)
  have e9: "effects (?C 9) = [SetRequest pid, WriteProgress (Finite (2 / 3)),
        WriteProgressId (Finite (of_int (id s2))), ExecuteCalculatorCode (actionCode s2)] \<and>
      sim (?C 9) = hc"
    using outcome_action [OF a9, of pData almostEqual exec presetProcedures "?H 9"] len p2 dt h9
    by (simp add: C progress_fraction_def hc_def)
  have a10: "in_run (?S 10) pid proc 3 450 450"
    using in_run_ticks_action [OF a9] len p2 dt by (simp add: eval_nat_numeral)
  have h10: "?H 10 = hc"
    using H [of 9] e9 by (simp add: eval_nat_numeral)
  have e10: "effects (?C 10) = [SetRequest pid, WriteProgress (Finite 0),
        WriteProgressId (Finite 0), SetRequest 0] \<and> sim (?C 10) = hc"
    using update_done [OF a10, of almostEqual exec presetProcedures pData "?H 10"] len h10
    by (simp add: C)
  have "?S 11 = loader (update almostEqual exec presetProcedures pData (?S 10) (?H 10))"
    using fst_ticks_Suc [of almostEqual exec presetProcedures pData 10 st h]
    by (simp add: eval_nat_numeral)
  then have a11: "\<not> loadingIsActive (?S 11) \<and> loadAircraftPresetRequest (?S 11) = 0"
    using update_done [OF a10, of almostEqual exec presetProcedures pData "?H 10"] len by simp
  have steps_shown: "currentStep (fst (ticks almostEqual exec presetProcedures pData (Suc 0) st h)) = 0 \<and>
      currentStep (fst (ticks almostEqual exec presetProcedures pData (Suc 1) st h)) = 1 \<and>
      currentStep (fst (ticks almostEqual exec presetProcedures pData (Suc 2) st h)) = 1 \<and>
      currentStep (fst (ticks almostEqual exec presetProcedures pData (Suc 3) st h)) = 1 \<and>
      currentStep (fst (ticks almostEqual exec presetProcedures pData (Suc 4) st h)) = 2 \<and>
      currentStep (fst (ticks almostEqual exec presetProcedures pData (Suc 5) st h)) = 2 \<and>
      currentStep (fst (ticks almostEqual exec presetProcedures pData (Suc 6) st h)) = 2 \<and>
      currentStep (fst (ticks almostEqual exec presetProcedures pData (Suc 7) st h)) = 2 \<and>
      currentStep (fst (ticks almostEqual exec presetProcedures pData (Suc 8) st h)) = 2 \<and>
      currentStep (fst (ticks almostEqual exec presetProcedures pData (Suc 9) st h)) = 3 \<and>
      currentLoadingTime (fst (ticks almostEqual exec presetProcedures pData (Suc 9) st h)) = 450 \<and>
      \<not> loadingIsActive (fst (ticks almostEqual exec presetProcedures pData (Suc 10) st h)) \<and>
      loadAircraftPresetRequest (fst (ticks almostEqual exec presetProcedures pData (Suc 10) st h)) = 0"
    using a1 a2 a3 a4 a5 a6 a7 a8 a9 a10 a11 by (simp add: in_run_def eval_nat_numeral)
  have effects_shown: "effects (call almostEqual exec presetProcedures pData 0 st h) =
         [WriteProgress (Finite 0), WriteProgressId (Finite 0)] \<and>
      effects (call almostEqual exec presetProcedures pData 1 st h) =
         [SetRequest (loadAircraftPresetRequest st), WriteProgress (Finite 0),
          WriteProgressId (Finite (of_int (id s0))), ExecuteCalculatorCode (actionCode s0)] \<and>
      effects (call almostEqual exec presetProcedures pData 2 st h) =
         [SetRequest (loadAircraftPresetRequest st)] \<and>
      effects (call almostEqual exec presetProcedures pData 3 st h) =
         [SetRequest (loadAircraftPresetRequest st)] \<and>
      effects (call almostEqual exec presetProcedures pData 4 st h) =
         [SetRequest (loadAircraftPresetRequest st), WriteProgress (Finite (1 / 3)),
          WriteProgressId (Finite (of_int (id s1))), ExecuteCalculatorCode (actionCode s1)] \<and>
      effects (call almostEqual exec presetProcedures pData 5 st h) =
         [SetRequest (loadAircraftPresetRequest st)] \<and>
      effects (call almostEqual exec presetProcedures pData 6 st h) =
         [SetRequest (loadAircraftPresetRequest st)] \<and>
      effects (call almostEqual exec presetProcedures pData 7 st h) =
         [SetRequest (loadAircraftPresetRequest st)] \<and>
      effects (call almostEqual exec presetProcedures pData 8 st h) =
         [SetRequest (loadAircraftPresetRequest st)] \<and>
      effects (call almostEqual exec presetProcedures pData 9 st h) =
         [SetRequest (loadAircraftPresetRequest st), WriteProgress (Finite (2 / 3)),
          WriteProgressId (Finite (of_int (id s2))), ExecuteCalculatorCode (actionCode s2)] \<and>
      effects (call almostEqual exec presetProcedures pData 10 st h) =
         [SetRequest (loadAircraftPresetRequest st), WriteProgress (Finite 0),
          WriteProgressId (Finite 0), SetRequest 0] \<and>
      sim (call almostEqual exec presetProcedures pData 0 st h) = h \<and>
      sim (call almostEqual exec presetProcedures pData 1 st h) = snd (exec (actionCode s0) h) \<and>
      sim (call almostEqual exec presetProcedures pData 2 st h) = snd (exec (actionCode s0) h) \<and>
      sim (call almostEqual exec presetProcedures pData 3 st h) = snd (exec (actionCode s0) h) \<and>
      sim (call almostEqual exec presetProcedures pData 4 st h) =
         snd (exec (actionCode s1) (snd (exec (actionCode s0) h))) \<and>
      sim (call almostEqual exec presetProcedures pData 5 st h) =
        snd (exec (actionCode s1) (snd (exec (actionCode s0) h))) \<and>
      sim (call almostEqual exec presetProcedures pData 6 st h) =
        snd (exec (actionCode s1) (snd (exec (actionCode s0) h))) \<and>
      sim (call almostEqual exec presetProcedures pData 7 st h) =
        snd (exec (actionCode s1) (snd (exec (actionCode s0) h))) \<and>
      sim (call almostEqual exec presetProcedures pData 8 st h) =
         snd (exec (actionCode s1) (snd (exec (actionCode s0) h))) \<and>
      sim (call almostEqual exec presetProcedures pData 9 st h) =
         snd (exec (actionCode s2) (snd (exec (actionCode s1) (snd (exec (actionCode s0) h))))) \<and>
      sim (call almostEqual exec presetProcedures pData 10 st h) =
         snd (exec (actionCode s2) (snd (exec (actionCode s1) (snd (exec (actionCode s0) h)))))"
    using e0 e1 e2 e3 e4 e5 e6 e7 e8 e9 e10
    by (simp add: pid_def ha_def hb_def hc_def)
  from steps_shown effects_shown show ?thesis
    by (rule conjI)
qed


theorem three_step_schedule_witness:
  "currentStep (fst (ticks (almostEqual_tol 0) (exec_stub (\<lambda>c. Finite 0)) [1 \<mapsto> three_steps]
        tick50 (Suc 1) (fresh\<lparr>loadAircraftPresetRequest := 1\<rparr>) [])) = 1 \<and>
   currentStep (fst (ticks (almostEqual_tol 0) (exec_stub (\<lambda>c. Finite 0)) [1 \<mapsto> three_steps]
        tick50 (Suc 3) (fresh\<lparr>loadAircraftPresetRequest := 1\<rparr>) [])) = 1 \<and>
   currentStep (fst (ticks (almostEqual_tol 0) (exec_stub (\<lambda>c. Finite 0)) [1 \<mapsto> three_steps]
        tick50 (Suc 4) (fresh\<lparr>loadAircraftPresetRequest := 1\<rparr>) [])) = 2 \<and>
   currentStep (fst (ticks (almostEqual_tol 0) (exec_stub (\<lambda>c. Finite 0)) [1 \<mapsto> three_steps]
        tick50 (Suc 8) (fresh\<lparr>loadAircraftPresetRequest := 1\<rparr>) [])) = 2 \<and>
   currentStep (fst (ticks (almostEqual_tol 0) (exec_stub (\<lambda>c. Finite 0)) [1 \<mapsto> three_steps]
        tick50 (Suc 9) (fresh\<lparr>loadAircraftPresetRequest := 1\<rparr>) [])) = 3 \<and>
   currentLoadingTime (fst (ticks (almostEqual_tol 0) (exec_stub (\<lambda>c. Finite 0)) [1 \<mapsto> three_steps]
        tick50 (Suc 9) (fresh\<lparr>loadAircraftPresetRequest := 1\<rparr>) [])) = 450 \<and>
   \<not> loadingIsActive (fst (ticks (almostEqual_tol 0) (exec_stub (\<lambda>c. Finite 0)) [1 \<mapsto> three_steps]
        tick50 (Suc 10) (fresh\<lparr>loadAircraftPresetRequest := 1\<rparr>) [])) \<and>
   effects (call (almostEqual_tol 0) (exec_stub (\<lambda>c. Finite 0)) [1 \<mapsto> three_steps]
        tick50 1 (fresh\<lparr>loadAircraftPresetRequest := 1\<rparr>) []) =
     [SetRequest 1, WriteProgress (Finite 0), WriteProgressId (Finite 1), ExecuteCalculatorCode ''a''] \<and>
   effects (call (almostEqual_tol 0) (exec_stub (\<lambda>c. Finite 0)) [1 \<mapsto> three_steps]
        tick50 2 (fresh\<lparr>loadAircraftPresetRequest := 1\<rparr>) []) = [SetRequest 1] \<and>
   effects (call (almostEqual_tol 0) (exec_stub (\<lambda>c. Finite 0)) [1 \<mapsto> three_steps]
        tick50 3 (fresh\<lparr>loadAircraftPresetRequest := 1\<rparr>) []) = [SetRequest 1] \<and>
   effects (call (almostEqual_tol 0) (exec_stub (\<lambda>c. Finite 0)) [1 \<mapsto> three_steps]
        tick50 4 (fresh\<lparr>loadAircraftPresetRequest := 1\<rparr>) []) =
     [SetRequest 1, WriteProgress (Finite (1 / 3)), WriteProgressId (Finite 2),
      ExecuteCalculatorCode ''b''] \<and>
   effects (call (almostEqual_tol 0) (exec_stub (\<lambda>c. Finite 0)) [1 \<mapsto> three_steps]
        tick50 8 (fresh\<lparr>loadAircraftPresetRequest := 1\<rparr>) []) = [SetRequest 1] \<and>
   effects (call (almostEqual_tol 0) (exec_stub (\<lambda>c. Finite 0)) [1 \<mapsto> three_steps]
        tick50 9 (fresh\<lparr>loadAircraftPresetRequest := 1\<rparr>) []) =
     [SetRequest 1, WriteProgress (Finite (2 / 3)), WriteProgressId (Finite 3),
      ExecuteCalculatorCode ''c''] \<and>
   sim (call (almostEqual_tol 0) (exec_stub (\<lambda>c. Finite 0)) [1 \<mapsto> three_steps]
        tick50 1 (fresh\<lparr>loadAircraftPresetRequest := 1\<rparr>) []) = [''a''] \<and>
   sim (call (almostEqual_tol 0) (exec_stub (\<lambda>c. Finite 0)) [1 \<mapsto> three_steps]
        tick50 3 (fresh\<lparr>loadAircraftPresetRequest := 1\<rparr>) []) = [''a''] \<and>
   sim (call (almostEqual_tol 0) (exec_stub (\<lambda>c. Finite 0)) [1 \<mapsto> three_steps]
        tick50 4 (fresh\<lparr>loadAircraftPresetRequest := 1\<rparr>) []) = [''a'', ''b''] \<and>
   sim (call (almostEqual_tol 0) (exec_stub (\<lambda>c. Finite 0)) [1 \<mapsto> three_steps]
        tick50 10 (fresh\<lparr>loadAircraftPresetRequest := 1\<rparr>) []) = [''a'', ''b'', ''c'']"
  using three_step_schedule [of "fresh\<lparr>loadAircraftPresetRequest := 1\<rparr>" "[1 \<mapsto> three_steps]"
      "action_step 1 100 [] ''a''" "action_step 2 200 [] ''b''" "action_step 3 0 [] ''c''"
      tick50 "almostEqual_tol 0" "exec_stub (\<lambda>c. Finite 0)" "[]"]
  by (simp add: fresh_def three_steps_def action_step_def tick50_def exec_stub_def)

section \<open>The idle loader\<close>

text \<open>
  C8: when the request is 0 and no run is going on, a call of \<^verbatim>\<open>update\<close> changes
  nothing in the module or in the simulator and has no effect on the outside (it writes
  no variable); any number of consecutive calls leaves the state as it was.
\<close>

theorem idle_noop:
  assumes "loadAircraftPresetRequest st = 0" "\<not> loadingIsActive st"
  shows "loader (update almostEqual exec presetProcedures pData st h) = st \<and>
    sim (update almostEqual exec presetProcedures pData st h) = h \<and>
    effects (update almostEqual exec presetProcedures pData st h) = [] \<and>
    ticks almostEqual exec presetProcedures pData n st h = (st, h)"
proof -
  have u: "update almostEqual exec presetProcedures pData st h =
      \<lparr>retval = isInitialized st, effects = [], loader = st, sim = h\<rparr>"
    using assms by (simp add: update_idle)
  have "ticks almostEqual exec presetProcedures pData n st h = (st, h)"
    by (induction n) (simp_all add: u)
  with u show ?thesis by simp
qed

theorem idle_noop_witness:
  "loader (update (almostEqual_tol 0) (exec_stub (\<lambda>c. Finite 0)) [1 \<mapsto> three_steps] tick50
      fresh []) = fresh \<and>
   effects (update (almostEqual_tol 0) (exec_stub (\<lambda>c. Finite 0)) [1 \<mapsto> three_steps] tick50
      fresh []) = [] \<and>
   ticks (almostEqual_tol 0) (exec_stub (\<lambda>c. Finite 0)) [1 \<mapsto> three_steps] tick50 7 fresh [] =
     (fresh, [])"
  using idle_noop [of fresh "almostEqual_tol 0" "exec_stub (\<lambda>c. Finite 0)" "[1 \<mapsto> three_steps]"
      tick50 "[]" 7]
  by (simp add: fresh_def)

section \<open>Negative requests\<close>

text \<open>
  The test of the request is \<open>> 0\<close>, so in every state, also one that does not pass the
  gates, a call with a negative request does what it does with the request at 0.
\<close>

lemma negative_request_same_call:
  assumes "loadAircraftPresetRequest st < 0"
  shows "effects (update almostEqual exec presetProcedures pData st h) =
      effects (update almostEqual exec presetProcedures pData (st\<lparr>loadAircraftPresetRequest := 0\<rparr>) h) \<and>
    sim (update almostEqual exec presetProcedures pData st h) =
      sim (update almostEqual exec presetProcedures pData (st\<lparr>loadAircraftPresetRequest := 0\<rparr>) h) \<and>
    retval (update almostEqual exec presetProcedures pData st h) =
      retval (update almostEqual exec presetProcedures pData (st\<lparr>loadAircraftPresetRequest := 0\<rparr>) h) \<and>
    (loader (update almostEqual exec presetProcedures pData st h))\<lparr>loadAircraftPresetRequest := 0\<rparr> =
      loader (update almostEqual exec presetProcedures pData (st\<lparr>loadAircraftPresetRequest := 0\<rparr>) h)"
  using assms by (simp add: update_def)

text \<open>
  C9: a negative request is treated exactly like 0. On a tick that \<^verbatim>\<open>update\<close> processes
  (the module initialized, the aircraft ready) and on which the request reads negative,
  the call has the same effects, return value and simulator as with the request at 0, and
  the same module but for the request itself; a run that is going on is cancelled
  (\<open>loadingIsActive\<close> is set to false, \<open>currentStep\<close> is not advanced); with no run
  going on the call changes nothing; and no run is started. The call has no effect on the
  outside at all.
\<close>

theorem negative_request_as_zero:
  assumes "isInitialized st" "aircraftIsReady st" "loadAircraftPresetRequest st < 0"
  shows "effects (update almostEqual exec presetProcedures pData st h) =
      effects (update almostEqual exec presetProcedures pData (st\<lparr>loadAircraftPresetRequest := 0\<rparr>) h) \<and>
    sim (update almostEqual exec presetProcedures pData st h) =
      sim (update almostEqual exec presetProcedures pData (st\<lparr>loadAircraftPresetRequest := 0\<rparr>) h) \<and>
    retval (update almostEqual exec presetProcedures pData st h) =
      retval (update almostEqual exec presetProcedures pData (st\<lparr>loadAircraftPresetRequest := 0\<rparr>) h) \<and>
    (loader (update almostEqual exec presetProcedures pData st h))\<lparr>loadAircraftPresetRequest := 0\<rparr> =
      loader (update almostEqual exec presetProcedures pData (st\<lparr>loadAircraftPresetRequest := 0\<rparr>) h) \<and>
    \<not> loadingIsActive (loader (update almostEqual exec presetProcedures pData st h)) \<and>
    currentStep (loader (update almostEqual exec presetProcedures pData st h)) = currentStep st \<and>
    loader (update almostEqual exec presetProcedures pData st h) = st\<lparr>loadingIsActive := False\<rparr> \<and>
    (\<not> loadingIsActive st \<longrightarrow> loader (update almostEqual exec presetProcedures pData st h) = st) \<and>
    effects (update almostEqual exec presetProcedures pData st h) = [] \<and>
    sim (update almostEqual exec presetProcedures pData st h) = h"
  using assms by (simp add: update_def)

theorem negative_request_as_zero_witness:
  "\<not> loadingIsActive (loader (update (almostEqual_tol 0) (exec_stub (\<lambda>c. Finite 0))
      [1 \<mapsto> three_steps] tick50 ((mid_run three_steps 1)\<lparr>loadAircraftPresetRequest := - 1\<rparr>) [])) \<and>
   currentStep (loader (update (almostEqual_tol 0) (exec_stub (\<lambda>c. Finite 0))
      [1 \<mapsto> three_steps] tick50 ((mid_run three_steps 1)\<lparr>loadAircraftPresetRequest := - 1\<rparr>) [])) = 1 \<and>
   loader (update (almostEqual_tol 0) (exec_stub (\<lambda>c. Finite 0))
      [1 \<mapsto> three_steps] tick50 (fresh\<lparr>loadAircraftPresetRequest := - 1\<rparr>) []) =
     fresh\<lparr>loadAircraftPresetRequest := - 1\<rparr>"
  using
    negative_request_as_zero [of "(mid_run three_steps 1)\<lparr>loadAircraftPresetRequest := - 1\<rparr>"
      "almostEqual_tol 0" "exec_stub (\<lambda>c. Finite 0)" "[1 \<mapsto> three_steps]" tick50 "[]"]
    negative_request_as_zero [of "fresh\<lparr>loadAircraftPresetRequest := - 1\<rparr>"
      "almostEqual_tol 0" "exec_stub (\<lambda>c. Finite 0)" "[1 \<mapsto> three_steps]" tick50 "[]"]
  by (simp add: fresh_def mid_run_def)

section \<open>The progress fraction\<close>

text \<open>
  C10: every progress value a call writes is either the constant 0 of run start and
  completion, or the quotient of \<open>currentStep\<close> by the size of the procedure, computed
  with \<open>currentStep\<close> below the size. So the divisor is never zero (the value written is
  finite, also for an empty procedure), and every value written lies in \<open>[0, 1)\<close>.
\<close>

theorem progress_in_unit_interval:
  assumes "WriteProgress v \<in> set (effects (update almostEqual exec presetProcedures pData st h))"
  shows "(v = Finite 0 \<or>
          (currentStep st < length (currentProcedure st) \<and>
           v = progress_fraction (currentStep st) (length (currentProcedure st)))) \<and>
         (\<exists>r. v = Finite r \<and> 0 \<le> r \<and> r < 1)"
  using assms
  by (auto simp add: update_def Let_def progress_fraction_def
      split: option.splits prod.splits if_splits)

theorem progress_in_unit_interval_witness:
  "WriteProgress (Finite (1 / 2)) \<in> set (effects (update (almostEqual_tol 0)
        (exec_stub (\<lambda>c. Finite 0)) [1 \<mapsto> checked_steps] tick50 (mid_run checked_steps 1) [])) \<and>
   Finite (1 / 2) = progress_fraction 1 2 \<and>
   (\<exists>r. Finite (1 / 2) = Finite r \<and> 0 \<le> r \<and> r < 1)"
proof -
  have w: "WriteProgress (Finite (1 / 2)) \<in> set (effects (update (almostEqual_tol 0)
        (exec_stub (\<lambda>c. Finite 0)) [1 \<mapsto> checked_steps] tick50 (mid_run checked_steps 1) []))"
    by (simp add: update_def Let_def sample_defs)
  have f: "Finite (1 / 2) = progress_fraction 1 2"
    by (simp add: progress_fraction_def)
  from progress_in_unit_interval [OF w]
  have "\<exists>r. Finite (1 / 2) = Finite r \<and> 0 \<le> r \<and> r < 1"
    by blast
  with w f show ?thesis
    by blast
qed

end
